theory Spec2Isabelle
  imports Complex_Main "HOL-Library.Word"
begin

section \<open>JavaScript values\<close>

text \<open>
  A JavaScript string is a sequence of UTF-16 code units, and \<open>s.length\<close> counts
  those units. Literals of the source are written \<open>js ''...''\<close>.
\<close>

type_synonym jsstring = "16 word list"

definition js :: "string \<Rightarrow> jsstring" where
  "js s = map (\<lambda>c. of_nat (of_char c)) s"

text \<open>
  The values a property can hold: the JavaScript primitives and arrays. A number is
  modelled by its value; the code only asks whether it is zero. Objects nested inside
  a property are not modelled (reading \<open>length\<close> from them would need JavaScript's
  coercion of arbitrary values to numbers).
\<close>

datatype jsval =
    Undefined
  | Null
  | Bool bool
  | Num real
  | Str jsstring
  | Arr "jsval list"

text \<open>
  A whole decoded document (a JSON body, a cookie payload): a bare value, or an object
  given by its own properties. The first entry for a name stands.
\<close>

datatype jsdoc =
    Value jsval
  | Object "(jsstring \<times> jsval) list"

datatype exn =
    TypeError
  | SyntaxError
  | RecordNotFound
  | Failure string

text \<open>\<open>!v\<close> is \<open>\<not> truthy v\<close>.\<close>

fun truthy :: "jsval \<Rightarrow> bool" where
  "truthy Undefined = False"
| "truthy Null = False"
| "truthy (Bool b) = b"
| "truthy (Num x) = (x \<noteq> 0)"
| "truthy (Str s) = (s \<noteq> [])"
| "truthy (Arr xs) = True"

fun truthy_doc :: "jsdoc \<Rightarrow> bool" where
  "truthy_doc (Value v) = truthy v"
| "truthy_doc (Object ps) = True"

text \<open>\<open>d || {}\<close>\<close>

definition or_empty :: "jsdoc \<Rightarrow> jsdoc" where
  "or_empty d = (if truthy_doc d then d else Object [])"

text \<open>Destructuring \<open>const { a, b } = d\<close> throws a TypeError when \<open>d\<close> is null or undefined.\<close>

fun nullish :: "jsdoc \<Rightarrow> bool" where
  "nullish (Value Undefined) = True"
| "nullish (Value Null) = True"
| "nullish _ = False"

text \<open>
  Reading one of the properties \<open>userId\<close>, \<open>currentPassword\<close>, \<open>newPassword\<close> from a
  document that is not null or undefined: an object yields its own property, or
  undefined when it has none; numbers, booleans, strings and arrays have no property
  of these names.
\<close>

fun get_prop :: "jsdoc \<Rightarrow> jsstring \<Rightarrow> jsval" where
  "get_prop (Object ps) k = (case map_of ps k of None \<Rightarrow> Undefined | Some v \<Rightarrow> v)"
| "get_prop (Value v) k = Undefined"

text \<open>
  \<open>v.length < n\<close>. Reading \<open>length\<close> from null or undefined throws; a string or an
  array has a length; a number or a boolean has none, and \<open>undefined < n\<close> is false.
\<close>

fun length_less :: "jsval \<Rightarrow> nat \<Rightarrow> exn + bool" where
  "length_less Undefined n = Inl TypeError"
| "length_less Null n = Inl TypeError"
| "length_less (Str s) n = Inr (length s < n)"
| "length_less (Arr xs) n = Inr (length xs < n)"
| "length_less (Bool b) n = Inr False"
| "length_less (Num x) n = Inr False"

section \<open>Collaborators of the password change route\<close>

text \<open>
  The route (\<open>src/unnamed/part_000\<close>) works through a cookie codec, the user store,
  the argon2 primitive and two response builders. Every call the route makes to one of
  them is recorded, in order, so that what ran and what did not can be stated.
  The router calls \<open>loader\<close> on a page load and \<open>action\<close> on a submission; the HTTP
  method is not an input of either function.
\<close>

datatype call =
    CheckAuth
  | CookieParse "string option"
  | FindUnique jsval
  | RequestJson
  | Argon2Verify jsstring jsval
  | Argon2Hash jsval
  | Update jsval jsstring
  | CookieSerialize jsdoc

fun is_update :: "call \<Rightarrow> bool" where
  "is_update (Update i h) = True"
| "is_update c = False"

fun is_verify :: "call \<Rightarrow> bool" where
  "is_verify (Argon2Verify h p) = True"
| "is_verify c = False"

text \<open>
  A request, as far as the route reads it: the \<open>Cookie\<close> header (\<open>null\<close> when there is
  none) and what \<open>request.json()\<close> settles to (it rejects when the body is not JSON).
\<close>

record request =
  cookie :: "string option"
  json :: "exn + jsdoc"

text \<open>
  The codec and the hash primitive are parameters. Each may throw. \<open>argon2.hash\<close>
  draws a fresh salt; \<open>argon2_hash\<close> is the primitive with the salt of this run.
\<close>

record env =
  authCookie_parse :: "string option \<Rightarrow> exn + jsdoc"
  authCookie_serialize :: "jsdoc \<Rightarrow> exn + string"
  argon2_verify :: "jsstring \<Rightarrow> jsval \<Rightarrow> exn + bool"
  argon2_hash :: "jsval \<Rightarrow> exn + jsstring"

text \<open>
  A row of the user table: its identifier, its stored password hash, and whatever
  other columns the schema has (the extension of the record).
\<close>

record user =
  id' :: jsval
  password :: jsstring

type_synonym 'a table = "'a user_scheme list"

text \<open>
  \<open>prisma.user.findUnique({ where: { id } })\<close>: the row with that identifier, or \<open>null\<close>.
  The table is a list of rows. The identifier is the primary key; that no two rows
  share one is assumed where a theorem needs it. A store that cannot be reached, and
  the client's check of the identifier's type against the schema, are not modelled.
\<close>

definition user_findUnique :: "'a table \<Rightarrow> jsval \<Rightarrow> 'a user_scheme option" where
  "user_findUnique db i = find (\<lambda>u. id' u = i) db"

text \<open>
  \<open>prisma.user.update({ where: { id }, data: { password } })\<close>: writes the column named
  in \<open>data\<close> of the one row with that identifier, and throws when there is no such row.
\<close>

definition user_update :: "'a table \<Rightarrow> jsval \<Rightarrow> jsstring \<Rightarrow> exn + 'a table" where
  "user_update db i h =
     (case List.extract (\<lambda>u. id' u = i) db of
        None \<Rightarrow> Inl RecordNotFound
      | Some (before, u, after) \<Rightarrow> Inr (before @ u\<lparr>password := h\<rparr> # after))"

text \<open>
  A response: \<open>redirect(url, { headers })\<close> of the router, or a body with a status.
\<close>

datatype response =
    Redirect string "(string \<times> string) list"
  | Data nat string

text \<open>
  Modelled from the spec: \<open>badRequest\<close> of \<open>~/lib/responses\<close> is not among the sources.
  The spec gives its result as a structured failure, HTTP 400 equivalent, carrying the
  single message \<open>detail\<close>.
\<close>

definition badRequest :: "string \<Rightarrow> response" where
  "badRequest detail = Data 400 detail"

section \<open>The password change route\<close>

text \<open>
  \<open>loader\<close>. Its check, \<open>checkAuth\<close> of \<open>~/lib/check-auth\<close>, is not among the sources
  and is a parameter: a single check that reads the request and the store and returns
  or throws (the spec gives it no side effects). The loader yields \<open>null\<close> (\<open>None\<close>) or
  a redirect; it catches whatever the check throws.
\<close>

definition loader ::
  "(request \<Rightarrow> 'a table \<Rightarrow> exn + 'r) \<Rightarrow> request \<Rightarrow> 'a table
     \<Rightarrow> response option \<times> 'a table \<times> call list" where
  "loader checkAuth request db =
     (case checkAuth request db of
        Inl error \<Rightarrow> (Some (Redirect ''/login'' []), db, [CheckAuth])
      | Inr ok \<Rightarrow> (None, db, [CheckAuth]))"

text \<open>
  \<open>action\<close>. The result is what the handler returns or throws, the store afterwards,
  and the calls made.
\<close>

definition action ::
  "env \<Rightarrow> request \<Rightarrow> 'a table \<Rightarrow> (exn + response) \<times> 'a table \<times> call list" where
  "action env request db =
     (let t1 = [CookieParse (cookie request)] in
      case authCookie_parse env (cookie request) of
        Inl e \<Rightarrow> (Inl e, db, t1)
      | Inr parsed \<Rightarrow>
     (let userId = get_prop (or_empty parsed) (js ''userId'') in
      if \<not> truthy userId then (Inr (Redirect ''/login'' []), db, t1)
      else
     (let t2 = t1 @ [FindUnique userId] in
      case user_findUnique db userId of
        None \<Rightarrow> (Inr (Redirect ''/login'' []), db, t2)
      | Some user \<Rightarrow>
     (let t3 = t2 @ [RequestJson] in
      case json request of
        Inl e \<Rightarrow> (Inl e, db, t3)
      | Inr formData \<Rightarrow>
     (if nullish formData then (Inl TypeError, db, t3)
      else
     (let currentPassword = get_prop formData (js ''currentPassword'');
          newPassword = get_prop formData (js ''newPassword'') in
      if \<not> truthy currentPassword \<or> \<not> truthy newPassword then
        (Inr (badRequest ''Current password and new password are required''), db, t3)
      else
     (case length_less newPassword 8 of
        Inl e \<Rightarrow> (Inl e, db, t3)
      | Inr short \<Rightarrow>
     (if short then
        (Inr (badRequest ''New password must be at least 8 characters long''), db, t3)
      else
     (let t4 = t3 @ [Argon2Verify (password user) currentPassword] in
      case argon2_verify env (password user) currentPassword of
        Inl e \<Rightarrow> (Inl e, db, t4)
      | Inr isPasswordValid \<Rightarrow>
     (if \<not> isPasswordValid then
        (Inr (badRequest ''Current password is incorrect''), db, t4)
      else
     (let t5 = t4 @ [Argon2Hash newPassword] in
      case argon2_hash env newPassword of
        Inl e \<Rightarrow> (Inl e, db, t5)
      | Inr hashedPassword \<Rightarrow>
     (let t6 = t5 @ [Update (id' user) hashedPassword] in
      case user_update db (id' user) hashedPassword of
        Inl e \<Rightarrow> (Inl e, db, t6)
      | Inr db' \<Rightarrow>
     (let payload = Object [(js ''userId'', id' user)];
          t7 = t6 @ [CookieSerialize payload] in
      case authCookie_serialize env payload of
        Inl e \<Rightarrow> (Inl e, db', t7)
      | Inr token \<Rightarrow>
          (Inr (Redirect ''/'' [(''Set-Cookie'', token)]), db', t7))))))))))))))"

section \<open>Comment edit input\<close>

text \<open>
  \<open>src/app/components/edit-comment-input.tsx\<close>. The component is controlled: \<open>value\<close>
  is owned by the parent. What \<open>handleKeyDown\<close> does is the list of calls it makes,
  in order.
\<close>

record keyboard_event =
  key :: jsstring
  metaKey :: bool
  ctrlKey :: bool

datatype key_effect = PreventDefault | OnConfirm | OnCancel

definition handleKeyDown :: "jsstring \<Rightarrow> 'a keyboard_event_scheme \<Rightarrow> key_effect list" where
  "handleKeyDown val e =
     (if (metaKey e \<or> ctrlKey e) \<and> key e = js ''Enter'' then [PreventDefault, OnConfirm]
      else if key e = js ''Escape'' then [OnCancel]
      else [])"

section \<open>A small instance\<close>

text \<open>
  A store of two users and toy collaborators, on which the theorems below are run.
  The toy hash prefixes the password with \<open>h:\<close>; the cookie \<open>auth=alice\<close> carries
  alice's identifier, \<open>auth=ghost\<close> that of a user who is not in the store.
\<close>

definition demo_env :: env where
  "demo_env =
     \<lparr>authCookie_parse = (\<lambda>header.
        if header = Some ''auth=alice'' then Inr (Object [(js ''userId'', Str (js ''alice''))])
        else if header = Some ''auth=ghost'' then Inr (Object [(js ''userId'', Str (js ''ghost''))])
        else Inr (Value Null)),
      authCookie_serialize = (\<lambda>payload. Inr ''auth=fresh''),
      argon2_verify = (\<lambda>digest plain.
        case plain of Str s \<Rightarrow> Inr (digest = js ''h:'' @ s) | _ \<Rightarrow> Inl TypeError),
      argon2_hash = (\<lambda>plain.
        case plain of Str s \<Rightarrow> Inr (js ''h:'' @ s) | _ \<Rightarrow> Inl TypeError)\<rparr>"

definition bob :: user where
  "bob = \<lparr>id' = Str (js ''bob''), password = js ''h:hunter2hunter2''\<rparr>"

definition alice :: user where
  "alice = \<lparr>id' = Str (js ''alice''), password = js ''h:correct horse''\<rparr>"

definition demo_db :: "unit table" where
  "demo_db = [bob, alice]"

definition demo_request :: "string option \<Rightarrow> (jsstring \<times> jsval) list \<Rightarrow> request" where
  "demo_request header props = \<lparr>cookie = header, json = Inr (Object props)\<rparr>"

definition demo_checkAuth :: "request \<Rightarrow> unit table \<Rightarrow> exn + unit" where
  "demo_checkAuth request db =
     (if cookie request = Some ''auth=alice'' then Inr () else Inl (Failure ''Unauthorized''))"

section \<open>Facts about the store\<close>

lemma findUnique_id: "user_findUnique db i = Some u \<Longrightarrow> id' u = i"
  by (auto simp: user_findUnique_def find_Some_iff)

lemma findUnique_first:
  assumes "user_findUnique db i = Some u"
  obtains k where "k < length db" and "db ! k = u" and "\<forall>j<k. id' (db ! j) \<noteq> i"
  using assms by (auto simp: user_findUnique_def find_Some_iff)

lemma extract_first:
  assumes "k < length db" and "id' (db ! k) = i" and "\<forall>j<k. id' (db ! j) \<noteq> i"
  shows "List.extract (\<lambda>u. id' u = i) db = Some (take k db, db ! k, drop (Suc k) db)"
  unfolding extract_Some_iff
proof (intro conjI)
  show "db = take k db @ db ! k # drop (Suc k) db"
    using assms(1) by (rule id_take_nth_drop)
  show "id' (db ! k) = i" by fact
  show "\<not> (\<exists>v\<in>set (take k db). id' v = i)"
  proof
    assume "\<exists>v\<in>set (take k db). id' v = i"
    then obtain j where "j < length (take k db)" and "id' (take k db ! j) = i"
      by (auto simp: in_set_conv_nth)
    then have "j < k" and "id' (db ! j) = i" by simp_all
    with assms(3) show False by blast
  qed
qed

lemma user_update_found:
  assumes "user_findUnique db i = Some u"
  obtains k where "k < length db" and "db ! k = u" and "\<forall>j<k. id' (db ! j) \<noteq> i"
    and "user_update db i h = Inr (db[k := u\<lparr>password := h\<rparr>])"
proof -
  from assms obtain k where k: "k < length db" "db ! k = u" "\<forall>j<k. id' (db ! j) \<noteq> i"
    by (rule findUnique_first)
  have "id' (db ! k) = i" using assms k(2) by (simp add: findUnique_id)
  from extract_first [OF k(1) this k(3)]
  have "user_update db i h = Inr (take k db @ u\<lparr>password := h\<rparr> # drop (Suc k) db)"
    using k(2) by (simp add: user_update_def)
  then have "user_update db i h = Inr (db[k := u\<lparr>password := h\<rparr>])"
    using k(1) by (simp add: upd_conv_take_nth_drop)
  with k show thesis by (rule that)
qed

lemma findUnique_after_update:
  assumes "user_findUnique db i = Some u" and "user_update db i h = Inr db'"
  shows "user_findUnique db' i = Some (u\<lparr>password := h\<rparr>)"
proof -
  from assms(1) obtain k where k: "k < length db" "db ! k = u" "\<forall>j<k. id' (db ! j) \<noteq> i"
    and upd: "user_update db i h = Inr (db[k := u\<lparr>password := h\<rparr>])"
    by (rule user_update_found)
  have idu: "id' u = i" using assms(1) by (rule findUnique_id)
  have db': "db' = db[k := u\<lparr>password := h\<rparr>]" using upd assms(2) by simp
  have 1: "k < length db'" using k(1) by (simp add: db')
  have 2: "id' (db' ! k) = i" using k(1) idu by (simp add: db')
  have 3: "u\<lparr>password := h\<rparr> = db' ! k" using k(1) by (simp add: db')
  have 4: "\<forall>j<k. \<not> id' (db' ! j) = i" using k(3) by (simp add: db')
  have "\<exists>n<length db'. id' (db' ! n) = i \<and> u\<lparr>password := h\<rparr> = db' ! n
          \<and> (\<forall>j<n. \<not> id' (db' ! j) = i)"
    using 1 2 3 4 by (intro exI [of _ k] conjI)
  then show ?thesis
    by (simp only: user_findUnique_def find_Some_iff)
qed

lemma truthy_prop_not_nullish: "truthy (get_prop d k) \<Longrightarrow> \<not> nullish d"
  by (cases d) auto

section \<open>Paths through the action\<close>

lemma action_success:
  assumes "authCookie_parse env (cookie request) = Inr parsed"
    and "userId = get_prop (or_empty parsed) (js ''userId'')"
    and "truthy userId"
    and "user_findUnique db userId = Some user"
    and "json request = Inr formData"
    and "truthy (get_prop formData (js ''currentPassword''))"
    and "truthy (get_prop formData (js ''newPassword''))"
    and "length_less (get_prop formData (js ''newPassword'')) 8 = Inr False"
    and "argon2_verify env (password user) (get_prop formData (js ''currentPassword'')) = Inr True"
    and "argon2_hash env (get_prop formData (js ''newPassword'')) = Inr h"
    and "authCookie_serialize env (Object [(js ''userId'', userId)]) = Inr token"
  shows "\<exists>db'. user_update db userId h = Inr db'
           \<and> user_findUnique db' userId = Some (user\<lparr>password := h\<rparr>)
           \<and> action env request db =
             (Inr (Redirect ''/'' [(''Set-Cookie'', token)]), db',
              [CookieParse (cookie request), FindUnique userId, RequestJson,
               Argon2Verify (password user) (get_prop formData (js ''currentPassword'')),
               Argon2Hash (get_prop formData (js ''newPassword'')),
               Update userId h,
               CookieSerialize (Object [(js ''userId'', userId)])])"
proof -
  have idu: "id' user = userId" using assms(4) by (rule findUnique_id)
  have nn: "\<not> nullish formData" using assms(6) by (rule truthy_prop_not_nullish)
  from assms(4) obtain k where
    u: "user_update db userId h = Inr (db[k := user\<lparr>password := h\<rparr>])"
    by (rule user_update_found)
  have f: "user_findUnique (db[k := user\<lparr>password := h\<rparr>]) userId = Some (user\<lparr>password := h\<rparr>)"
    using assms(4) u by (rule findUnique_after_update)
  have "action env request db =
             (Inr (Redirect ''/'' [(''Set-Cookie'', token)]), db[k := user\<lparr>password := h\<rparr>],
              [CookieParse (cookie request), FindUnique userId, RequestJson,
               Argon2Verify (password user) (get_prop formData (js ''currentPassword'')),
               Argon2Hash (get_prop formData (js ''newPassword'')),
               Update userId h,
               CookieSerialize (Object [(js ''userId'', userId)])])"
    using assms(1,3-11) u idu nn unfolding action_def assms(2) by (simp add: Let_def)
  with u f show ?thesis by blast
qed

lemma action_verify_guard:
  assumes "action env request db = (result, db', calls)"
    and "Argon2Verify digest plain \<in> set calls"
  shows "\<exists>formData. json request = Inr formData \<and> \<not> nullish formData
           \<and> plain = get_prop formData (js ''currentPassword'')
           \<and> truthy (get_prop formData (js ''currentPassword''))
           \<and> truthy (get_prop formData (js ''newPassword''))
           \<and> length_less (get_prop formData (js ''newPassword'')) 8 = Inr False"
  using assms unfolding action_def Let_def
  by (auto split: sum.splits option.splits if_splits)

lemma action_update_guard:
  assumes "action env request db = (result, db', calls)"
    and "Update i h \<in> set calls"
  shows "\<exists>user formData rest.
           user_findUnique db i = Some user \<and> json request = Inr formData
           \<and> calls = [CookieParse (cookie request), FindUnique i, RequestJson,
                 Argon2Verify (password user) (get_prop formData (js ''currentPassword'')),
                 Argon2Hash (get_prop formData (js ''newPassword'')),
                 Update i h] @ rest
           \<and> argon2_verify env (password user) (get_prop formData (js ''currentPassword'')) = Inr True
           \<and> argon2_hash env (get_prop formData (js ''newPassword'')) = Inr h"
  using assms unfolding action_def Let_def
  by (auto simp: badRequest_def findUnique_id split: sum.splits option.splits if_splits)

lemma action_no_update:
  assumes "action env request db = (result, db', calls)"
    and "\<not> list_ex is_update calls"
  shows "db' = db"
  using assms unfolding action_def Let_def
  by (auto split: sum.splits option.splits if_splits)

lemma action_failure:
  assumes "action env request db = (Inr (Data status detail), db', calls)"
  shows "db' = db \<and> \<not> list_ex is_update calls"
  using assms unfolding action_def Let_def
  by (auto split: sum.splits option.splits if_splits)

lemma action_success_inv:
  assumes "action env request db = (Inr (Redirect ''/'' hs), db', calls)"
  shows "\<exists>parsed user h. authCookie_parse env (cookie request) = Inr parsed
           \<and> user_findUnique db (get_prop (or_empty parsed) (js ''userId'')) = Some user
           \<and> user_update db (get_prop (or_empty parsed) (js ''userId'')) h = Inr db'
           \<and> Update (get_prop (or_empty parsed) (js ''userId'')) h \<in> set calls"
  using assms unfolding action_def Let_def
  by (auto simp: badRequest_def findUnique_id split: sum.splits option.splits if_splits)

section \<open>Runs of the small instance\<close>

lemma demo_session:
  "authCookie_parse demo_env (cookie (demo_request (Some ''auth=alice'') props))
     = Inr (Object [(js ''userId'', Str (js ''alice''))])"
  by (simp add: demo_env_def demo_request_def)

lemma demo_userId: "v = get_prop (or_empty (Object [(js ''userId'', v)])) (js ''userId'')"
  by (simp add: or_empty_def)

lemma demo_truthy: "truthy (Str (js (c # cs)))"
  by (simp add: js_def)

lemma demo_find_alice: "user_findUnique demo_db (Str (js ''alice'')) = Some alice"
  by (simp add: user_findUnique_def demo_db_def bob_def alice_def js_def)

lemma demo_json: "json (demo_request header props) = Inr (Object props)"
  by (simp add: demo_request_def)

lemma demo_update_alice:
  "user_update demo_db (Str (js ''alice'')) h = Inr [bob, alice\<lparr>password := h\<rparr>]"
  by (simp add: user_update_def demo_db_def bob_def alice_def js_def extract_Cons_code)

lemma demo_argon2:
  "\<forall>plain digest. argon2_hash demo_env plain = Inr digest
     \<longrightarrow> argon2_verify demo_env digest plain = Inr True"
  by (auto simp: demo_env_def split: jsval.splits)

lemma demo_verify:
  "argon2_verify demo_env (password alice) (Str s) = Inr (s = js ''correct horse'')"
  by (auto simp: demo_env_def alice_def js_def)

lemma demo_hash: "argon2_hash demo_env (Str s) = Inr (js ''h:'' @ s)"
  by (simp add: demo_env_def)

lemma demo_serialize: "authCookie_serialize demo_env payload = Inr ''auth=fresh''"
  by (simp add: demo_env_def)

lemma demo_run_accepted:
  "action demo_env
     (demo_request (Some ''auth=alice'')
        [(js ''currentPassword'', Str (js ''correct horse'')),
         (js ''newPassword'', Str (js ''battery staple''))])
     demo_db
   = (Inr (Redirect ''/'' [(''Set-Cookie'', ''auth=fresh'')]),
      [bob, alice\<lparr>password := js ''h:battery staple''\<rparr>],
      [CookieParse (Some ''auth=alice''), FindUnique (Str (js ''alice'')), RequestJson,
       Argon2Verify (js ''h:correct horse'') (Str (js ''correct horse'')),
       Argon2Hash (Str (js ''battery staple'')),
       Update (Str (js ''alice'')) (js ''h:battery staple''),
       CookieSerialize (Object [(js ''userId'', Str (js ''alice''))])])"
  by (simp add: action_def Let_def demo_env_def demo_request_def demo_db_def bob_def alice_def
      or_empty_def user_findUnique_def user_update_def extract_Cons_code js_def)

lemma demo_run_mismatch:
  "action demo_env
     (demo_request (Some ''auth=alice'')
        [(js ''currentPassword'', Str (js ''wrong horse'')),
         (js ''newPassword'', Str (js ''battery staple''))])
     demo_db
   = (Inr (Data 400 ''Current password is incorrect''), demo_db,
      [CookieParse (Some ''auth=alice''), FindUnique (Str (js ''alice'')), RequestJson,
       Argon2Verify (js ''h:correct horse'') (Str (js ''wrong horse''))])"
  by (simp add: action_def Let_def demo_env_def demo_request_def demo_db_def bob_def alice_def
      or_empty_def user_findUnique_def badRequest_def js_def)

section \<open>The password change route: the action\<close>

text \<open>
  C1. A request whose cookie resolves to the identifier of a user in the store, whose
  body carries a \<open>currentPassword\<close> (present in the sense of the presence check, so
  not empty) that verifies against the stored hash, and a string \<open>newPassword\<close> of
  length at least 8: the action makes exactly one store update, writing the hash of
  \<open>newPassword\<close> to that user's row; the stored hash then verifies against
  \<open>newPassword\<close>; and the result is a redirect to \<open>/\<close> whose \<open>Set-Cookie\<close> header is the
  token serialized for the same user identifier. The collaborators are taken to
  return (hash and serialize do not throw), and argon2 to verify what it hashed.
\<close>

theorem action_rotates_password:
  assumes "authCookie_parse env (cookie request) = Inr parsed"
    and "userId = get_prop (or_empty parsed) (js ''userId'')"
    and "truthy userId"
    and "user_findUnique db userId = Some user"
    and "json request = Inr formData"
    and "currentPassword = get_prop formData (js ''currentPassword'')"
    and "truthy currentPassword"
    and "get_prop formData (js ''newPassword'') = Str newPassword"
    and "8 \<le> length newPassword"
    and "argon2_verify env (password user) currentPassword = Inr True"
    and "argon2_hash env (Str newPassword) = Inr hashedPassword"
    and "\<forall>plain digest. argon2_hash env plain = Inr digest
           \<longrightarrow> argon2_verify env digest plain = Inr True"
    and "authCookie_serialize env (Object [(js ''userId'', userId)]) = Inr token"
  shows "\<exists>db' calls.
           action env request db = (Inr (Redirect ''/'' [(''Set-Cookie'', token)]), db', calls)
           \<and> calls = [CookieParse (cookie request), FindUnique userId, RequestJson,
                Argon2Verify (password user) currentPassword,
                Argon2Hash (Str newPassword),
                Update userId hashedPassword,
                CookieSerialize (Object [(js ''userId'', userId)])]
           \<and> filter is_update calls = [Update userId hashedPassword]
           \<and> user_update db userId hashedPassword = Inr db'
           \<and> user_findUnique db' userId = Some (user\<lparr>password := hashedPassword\<rparr>)
           \<and> argon2_verify env hashedPassword (Str newPassword) = Inr True"
proof -
  have n: "truthy (get_prop formData (js ''newPassword''))"
    and l: "length_less (get_prop formData (js ''newPassword'')) 8 = Inr False"
    using assms(8,9) by auto
  from action_success [OF assms(1-5) assms(7) [unfolded assms(6)] n l
      assms(10) [unfolded assms(6)] assms(11) [folded assms(8)] assms(13)]
  obtain db' where
    u: "user_update db userId hashedPassword = Inr db'"
    and f: "user_findUnique db' userId = Some (user\<lparr>password := hashedPassword\<rparr>)"
    and a: "action env request db =
             (Inr (Redirect ''/'' [(''Set-Cookie'', token)]), db',
              [CookieParse (cookie request), FindUnique userId, RequestJson,
               Argon2Verify (password user) (get_prop formData (js ''currentPassword'')),
               Argon2Hash (get_prop formData (js ''newPassword'')),
               Update userId hashedPassword,
               CookieSerialize (Object [(js ''userId'', userId)])])"
    by blast
  have v: "argon2_verify env hashedPassword (Str newPassword) = Inr True"
    using assms(11,12) by blast
  from a have "action env request db =
             (Inr (Redirect ''/'' [(''Set-Cookie'', token)]), db',
              [CookieParse (cookie request), FindUnique userId, RequestJson,
               Argon2Verify (password user) currentPassword,
               Argon2Hash (Str newPassword),
               Update userId hashedPassword,
               CookieSerialize (Object [(js ''userId'', userId)])])"
    by (simp add: assms(6,8))
  then show ?thesis using u f v by simp
qed

theorem action_rotates_password_witness:
  "action demo_env
     (demo_request (Some ''auth=alice'')
        [(js ''currentPassword'', Str (js ''correct horse'')),
         (js ''newPassword'', Str (js ''battery staple''))])
     demo_db
   = (Inr (Redirect ''/'' [(''Set-Cookie'', ''auth=fresh'')]),
      [bob, alice\<lparr>password := js ''h:'' @ js ''battery staple''\<rparr>],
      [CookieParse (Some ''auth=alice''), FindUnique (Str (js ''alice'')), RequestJson,
       Argon2Verify (password alice) (Str (js ''correct horse'')),
       Argon2Hash (Str (js ''battery staple'')),
       Update (Str (js ''alice'')) (js ''h:'' @ js ''battery staple''),
       CookieSerialize (Object [(js ''userId'', Str (js ''alice''))])])
   \<and> argon2_verify demo_env (js ''h:'' @ js ''battery staple'') (Str (js ''battery staple''))
       = Inr True"
proof -
  let ?props = "[(js ''currentPassword'', Str (js ''correct horse'')),
         (js ''newPassword'', Str (js ''battery staple''))]"
  have c: "Str (js ''correct horse'') = get_prop (Object ?props) (js ''currentPassword'')"
    by simp
  have n: "get_prop (Object ?props) (js ''newPassword'') = Str (js ''battery staple'')"
    by (simp add: js_def)
  have l: "8 \<le> length (js ''battery staple'')"
    by (simp add: js_def)
  have v: "argon2_verify demo_env (password alice) (Str (js ''correct horse'')) = Inr True"
    by (simp add: demo_verify)
  from action_rotates_password [OF demo_session demo_userId demo_truthy demo_find_alice
      demo_json c demo_truthy n l v demo_hash demo_argon2 demo_serialize]
  show ?thesis
    by (simp add: demo_update_alice demo_request_def)
qed

text \<open>
  C2. With a session that resolves to a user of the store and a body that passes the
  presence and the length checks: when \<open>argon2.verify\<close> answers false for
  \<open>currentPassword\<close>, the action returns \<open>badRequest\<close> (status 400) with the detail
  \<open>Current password is incorrect\<close>, the store is unchanged and no update call is made.
\<close>

theorem action_wrong_current_password:
  assumes "authCookie_parse env (cookie request) = Inr parsed"
    and "userId = get_prop (or_empty parsed) (js ''userId'')"
    and "truthy userId"
    and "user_findUnique db userId = Some user"
    and "json request = Inr formData"
    and "currentPassword = get_prop formData (js ''currentPassword'')"
    and "newPassword = get_prop formData (js ''newPassword'')"
    and "truthy currentPassword"
    and "truthy newPassword"
    and "length_less newPassword 8 = Inr False"
    and "argon2_verify env (password user) currentPassword = Inr False"
  shows "\<exists>calls.
           action env request db = (Inr (badRequest ''Current password is incorrect''), db, calls)
           \<and> calls = [CookieParse (cookie request), FindUnique userId, RequestJson,
                Argon2Verify (password user) currentPassword]
           \<and> \<not> list_ex is_update calls
           \<and> badRequest ''Current password is incorrect''
               = Data 400 ''Current password is incorrect''"
proof -
  have "\<not> nullish formData"
    using assms(6,8) truthy_prop_not_nullish by blast
  then have "action env request db =
      (Inr (badRequest ''Current password is incorrect''), db,
       [CookieParse (cookie request), FindUnique userId, RequestJson,
        Argon2Verify (password user) currentPassword])"
    using assms(1,3-5,8-11) unfolding action_def assms(2,6,7) by (simp add: Let_def)
  then show ?thesis by (simp add: badRequest_def)
qed

theorem action_wrong_current_password_witness:
  "action demo_env
     (demo_request (Some ''auth=alice'')
        [(js ''currentPassword'', Str (js ''wrong horse'')),
         (js ''newPassword'', Str (js ''battery staple''))])
     demo_db
   = (Inr (Data 400 ''Current password is incorrect''), demo_db,
      [CookieParse (Some ''auth=alice''), FindUnique (Str (js ''alice'')), RequestJson,
       Argon2Verify (password alice) (Str (js ''wrong horse''))])"
proof -
  let ?props = "[(js ''currentPassword'', Str (js ''wrong horse'')),
         (js ''newPassword'', Str (js ''battery staple''))]"
  have c: "Str (js ''wrong horse'') = get_prop (Object ?props) (js ''currentPassword'')"
    by simp
  have n: "Str (js ''battery staple'') = get_prop (Object ?props) (js ''newPassword'')"
    by (simp add: js_def)
  have l: "length_less (Str (js ''battery staple'')) 8 = Inr False"
    by (simp add: js_def)
  have v: "argon2_verify demo_env (password alice) (Str (js ''wrong horse'')) = Inr False"
    by (simp add: demo_verify js_def)
  from action_wrong_current_password [OF demo_session demo_userId demo_truthy demo_find_alice
      demo_json c n demo_truthy demo_truthy l v]
  show ?thesis
    by (simp add: demo_request_def badRequest_def)
qed

text \<open>
  C3, as amended. With a session that resolves to a user of the store and a JSON body
  other than \<open>null\<close>: when \<open>currentPassword\<close> or \<open>newPassword\<close> is falsy (absent, so
  undefined, or the empty string; also null, false or 0), the action returns
  \<open>badRequest\<close> (status 400) with the detail
  \<open>Current password and new password are required\<close>, the store is unchanged and no
  update call is made. The body \<open>null\<close> is left out: the action destructures the body
  before it tests the fields, and the route checks the shape of the body nowhere.
\<close>

theorem action_missing_field:
  assumes "authCookie_parse env (cookie request) = Inr parsed"
    and "userId = get_prop (or_empty parsed) (js ''userId'')"
    and "truthy userId"
    and "user_findUnique db userId = Some user"
    and "json request = Inr formData"
    and "\<not> nullish formData"
    and "currentPassword = get_prop formData (js ''currentPassword'')"
    and "newPassword = get_prop formData (js ''newPassword'')"
    and "\<not> truthy currentPassword \<or> \<not> truthy newPassword"
  shows "\<exists>calls.
           action env request db
             = (Inr (badRequest ''Current password and new password are required''), db, calls)
           \<and> calls = [CookieParse (cookie request), FindUnique userId, RequestJson]
           \<and> \<not> list_ex is_update calls
           \<and> badRequest ''Current password and new password are required''
               = Data 400 ''Current password and new password are required''"
proof -
  have "action env request db =
      (Inr (badRequest ''Current password and new password are required''), db,
       [CookieParse (cookie request), FindUnique userId, RequestJson])"
    using assms(1,3-6,9) unfolding action_def assms(2,7,8) by (auto simp: Let_def)
  then show ?thesis by (simp add: badRequest_def)
qed

theorem action_missing_field_witness:
  "action demo_env
     (demo_request (Some ''auth=alice'') [(js ''currentPassword'', Str (js ''correct horse''))])
     demo_db
   = (Inr (Data 400 ''Current password and new password are required''), demo_db,
      [CookieParse (Some ''auth=alice''), FindUnique (Str (js ''alice'')), RequestJson])
   \<and> action demo_env
     (demo_request (Some ''auth=alice'')
        [(js ''currentPassword'', Str []), (js ''newPassword'', Str (js ''battery staple''))])
     demo_db
   = (Inr (Data 400 ''Current password and new password are required''), demo_db,
      [CookieParse (Some ''auth=alice''), FindUnique (Str (js ''alice'')), RequestJson])"
proof -
  let ?absent = "[(js ''currentPassword'', Str (js ''correct horse''))]"
  let ?empty = "[(js ''currentPassword'', Str []), (js ''newPassword'', Str (js ''battery staple''))]"
  have a: "\<not> truthy (get_prop (Object ?absent) (js ''currentPassword''))
           \<or> \<not> truthy (get_prop (Object ?absent) (js ''newPassword''))"
    by (simp add: js_def)
  have e: "\<not> truthy (get_prop (Object ?empty) (js ''currentPassword''))
           \<or> \<not> truthy (get_prop (Object ?empty) (js ''newPassword''))"
    by simp
  have nn: "\<not> nullish (Object props)" for props by simp
  from action_missing_field [OF demo_session demo_userId demo_truthy demo_find_alice
      demo_json nn refl refl a]
    action_missing_field [OF demo_session demo_userId demo_truthy demo_find_alice
      demo_json nn refl refl e]
  show ?thesis
    by (simp add: demo_request_def badRequest_def)
qed

text \<open>
  C3 as first stated, for every JSON body, fails at the body \<open>null\<close>: both fields are
  absent from it, the session is alice's and alice is in the store, yet destructuring
  throws a TypeError and no structured failure is returned. The store is unchanged
  there too.
\<close>

theorem action_missing_field_counterexample:
  "action demo_env \<lparr>cookie = Some ''auth=alice'', json = Inr (Value Null)\<rparr> demo_db
     = (Inl TypeError, demo_db,
        [CookieParse (Some ''auth=alice''), FindUnique (Str (js ''alice'')), RequestJson])
   \<and> fst (action demo_env \<lparr>cookie = Some ''auth=alice'', json = Inr (Value Null)\<rparr> demo_db)
     \<noteq> Inr (badRequest ''Current password and new password are required'')"
proof -
  have "action demo_env \<lparr>cookie = Some ''auth=alice'', json = Inr (Value Null)\<rparr> demo_db
     = (Inl TypeError, demo_db,
        [CookieParse (Some ''auth=alice''), FindUnique (Str (js ''alice'')), RequestJson])"
    by (simp add: action_def Let_def demo_env_def demo_db_def bob_def alice_def
        or_empty_def user_findUnique_def js_def)
  then show ?thesis by simp
qed

text \<open>
  C4. With a session that resolves to a user of the store and both fields present:
  when \<open>newPassword\<close> is a string of fewer than 8 characters (UTF-16 code units, which
  is what \<open>length\<close> counts), the action returns \<open>badRequest\<close> (status 400) with the
  detail \<open>New password must be at least 8 characters long\<close>, the store is unchanged and
  no update call is made.
\<close>

theorem action_short_password:
  assumes "authCookie_parse env (cookie request) = Inr parsed"
    and "userId = get_prop (or_empty parsed) (js ''userId'')"
    and "truthy userId"
    and "user_findUnique db userId = Some user"
    and "json request = Inr formData"
    and "truthy (get_prop formData (js ''currentPassword''))"
    and "get_prop formData (js ''newPassword'') = Str newPassword"
    and "newPassword \<noteq> []"
    and "length newPassword < 8"
  shows "\<exists>calls.
           action env request db
             = (Inr (badRequest ''New password must be at least 8 characters long''), db, calls)
           \<and> calls = [CookieParse (cookie request), FindUnique userId, RequestJson]
           \<and> \<not> list_ex is_update calls
           \<and> badRequest ''New password must be at least 8 characters long''
               = Data 400 ''New password must be at least 8 characters long''"
proof -
  have "\<not> nullish formData"
    using assms(6) by (rule truthy_prop_not_nullish)
  then have "action env request db =
      (Inr (badRequest ''New password must be at least 8 characters long''), db,
       [CookieParse (cookie request), FindUnique userId, RequestJson])"
    using assms(1,3-9) unfolding action_def assms(2) by (simp add: Let_def)
  then show ?thesis by (simp add: badRequest_def)
qed

theorem action_short_password_witness:
  "action demo_env
     (demo_request (Some ''auth=alice'')
        [(js ''currentPassword'', Str (js ''correct horse'')),
         (js ''newPassword'', Str (js ''staple7''))])
     demo_db
   = (Inr (Data 400 ''New password must be at least 8 characters long''), demo_db,
      [CookieParse (Some ''auth=alice''), FindUnique (Str (js ''alice'')), RequestJson])"
proof -
  let ?props = "[(js ''currentPassword'', Str (js ''correct horse'')),
         (js ''newPassword'', Str (js ''staple7''))]"
  have c: "truthy (get_prop (Object ?props) (js ''currentPassword''))"
    by (simp add: js_def)
  have n: "get_prop (Object ?props) (js ''newPassword'') = Str (js ''staple7'')"
    by (simp add: js_def)
  have e: "js ''staple7'' \<noteq> []" and l: "length (js ''staple7'') < 8"
    by (simp_all add: js_def)
  from action_short_password [OF demo_session demo_userId demo_truthy demo_find_alice
      demo_json c n e l]
  show ?thesis
    by (simp add: demo_request_def badRequest_def)
qed

text \<open>
  C5. In every run of the action: a call of \<open>argon2.verify\<close> is made only when the body
  passed the presence check and the length check; a store update is made only after a
  call of \<open>argon2.verify\<close> that answered true; so whenever the result is a structured
  failure (a validation or a verification failure) the store is unchanged and no
  update call was made, and the store can differ only when an update call was made.
\<close>

theorem action_order:
  assumes "action env request db = (result, db', calls)"
  shows "(\<forall>digest plain. Argon2Verify digest plain \<in> set calls \<longrightarrow>
            (\<exists>formData. json request = Inr formData \<and> \<not> nullish formData
               \<and> plain = get_prop formData (js ''currentPassword'')
               \<and> truthy (get_prop formData (js ''currentPassword''))
               \<and> truthy (get_prop formData (js ''newPassword''))
               \<and> length_less (get_prop formData (js ''newPassword'')) 8 = Inr False))
       \<and> (\<forall>i h. Update i h \<in> set calls \<longrightarrow>
            (\<exists>front digest plain rest. calls = front @ Update i h # rest
               \<and> Argon2Verify digest plain \<in> set front
               \<and> argon2_verify env digest plain = Inr True))
       \<and> (\<forall>status detail. result = Inr (Data status detail) \<longrightarrow>
            db' = db \<and> \<not> list_ex is_update calls)
       \<and> (\<not> list_ex is_update calls \<longrightarrow> db' = db)"
proof (intro conjI allI impI)
  fix digest plain
  assume "Argon2Verify digest plain \<in> set calls"
  with assms show "\<exists>formData. json request = Inr formData \<and> \<not> nullish formData
               \<and> plain = get_prop formData (js ''currentPassword'')
               \<and> truthy (get_prop formData (js ''currentPassword''))
               \<and> truthy (get_prop formData (js ''newPassword''))
               \<and> length_less (get_prop formData (js ''newPassword'')) 8 = Inr False"
    by (rule action_verify_guard)
next
  fix i h
  assume "Update i h \<in> set calls"
  from action_update_guard [OF assms this] obtain user formData rest where
    "user_findUnique db i = Some user" and
    c: "calls = [CookieParse (cookie request), FindUnique i, RequestJson,
                 Argon2Verify (password user) (get_prop formData (js ''currentPassword'')),
                 Argon2Hash (get_prop formData (js ''newPassword'')),
                 Update i h] @ rest"
    and v: "argon2_verify env (password user) (get_prop formData (js ''currentPassword'')) = Inr True"
    by blast
  let ?front = "[CookieParse (cookie request), FindUnique i, RequestJson,
                 Argon2Verify (password user) (get_prop formData (js ''currentPassword'')),
                 Argon2Hash (get_prop formData (js ''newPassword''))]"
  have "calls = ?front @ Update i h # rest" using c by simp
  moreover have "Argon2Verify (password user) (get_prop formData (js ''currentPassword'')) \<in> set ?front"
    by simp
  ultimately show "\<exists>front digest plain rest. calls = front @ Update i h # rest
               \<and> Argon2Verify digest plain \<in> set front
               \<and> argon2_verify env digest plain = Inr True"
    using v by blast
next
  fix status detail
  assume "result = Inr (Data status detail)"
  with assms have "action env request db = (Inr (Data status detail), db', calls)" by simp
  then have "db' = db \<and> \<not> list_ex is_update calls" by (rule action_failure)
  then show "db' = db" and "\<not> list_ex is_update calls" by simp_all
next
  assume "\<not> list_ex is_update calls"
  with assms show "db' = db" by (rule action_no_update)
qed

theorem action_order_witness:
  "(\<exists>formData.
      json (demo_request (Some ''auth=alice'')
        [(js ''currentPassword'', Str (js ''correct horse'')),
         (js ''newPassword'', Str (js ''battery staple''))]) = Inr formData
      \<and> \<not> nullish formData
      \<and> Str (js ''correct horse'') = get_prop formData (js ''currentPassword'')
      \<and> truthy (get_prop formData (js ''currentPassword''))
      \<and> truthy (get_prop formData (js ''newPassword''))
      \<and> length_less (get_prop formData (js ''newPassword'')) 8 = Inr False)
   \<and> (\<exists>front digest plain rest.
        [CookieParse (Some ''auth=alice''), FindUnique (Str (js ''alice'')), RequestJson,
         Argon2Verify (js ''h:correct horse'') (Str (js ''correct horse'')),
         Argon2Hash (Str (js ''battery staple'')),
         Update (Str (js ''alice'')) (js ''h:battery staple''),
         CookieSerialize (Object [(js ''userId'', Str (js ''alice''))])]
          = front @ Update (Str (js ''alice'')) (js ''h:battery staple'') # rest
        \<and> Argon2Verify digest plain \<in> set front
        \<and> argon2_verify demo_env digest plain = Inr True)
   \<and> fst (snd (action demo_env
        (demo_request (Some ''auth=alice'')
          [(js ''currentPassword'', Str (js ''wrong horse'')),
           (js ''newPassword'', Str (js ''battery staple''))])
        demo_db)) = demo_db"
proof -
  note accepted = action_order [OF demo_run_accepted]
  note mismatch = action_order [OF demo_run_mismatch]
  have 1: "\<exists>formData.
      json (demo_request (Some ''auth=alice'')
        [(js ''currentPassword'', Str (js ''correct horse'')),
         (js ''newPassword'', Str (js ''battery staple''))]) = Inr formData
      \<and> \<not> nullish formData
      \<and> Str (js ''correct horse'') = get_prop formData (js ''currentPassword'')
      \<and> truthy (get_prop formData (js ''currentPassword''))
      \<and> truthy (get_prop formData (js ''newPassword''))
      \<and> length_less (get_prop formData (js ''newPassword'')) 8 = Inr False"
    by (rule accepted [THEN conjunct1, rule_format]) simp
  have 2: "\<exists>front digest plain rest.
        [CookieParse (Some ''auth=alice''), FindUnique (Str (js ''alice'')), RequestJson,
         Argon2Verify (js ''h:correct horse'') (Str (js ''correct horse'')),
         Argon2Hash (Str (js ''battery staple'')),
         Update (Str (js ''alice'')) (js ''h:battery staple''),
         CookieSerialize (Object [(js ''userId'', Str (js ''alice''))])]
          = front @ Update (Str (js ''alice'')) (js ''h:battery staple'') # rest
        \<and> Argon2Verify digest plain \<in> set front
        \<and> argon2_verify demo_env digest plain = Inr True"
    by (rule accepted [THEN conjunct2, THEN conjunct1, rule_format]) simp
  have 3: "demo_db = demo_db \<and> \<not> list_ex is_update
       [CookieParse (Some ''auth=alice''), FindUnique (Str (js ''alice'')), RequestJson,
        Argon2Verify (js ''h:correct horse'') (Str (js ''wrong horse''))]"
    by (rule mismatch [THEN conjunct2, THEN conjunct2, THEN conjunct1, rule_format]) simp
  show ?thesis
    using 1 2 3 by (simp only: demo_run_mismatch fst_conv snd_conv simp_thms)
qed

text \<open>
  C6. When the cookie (also a missing one) does not resolve to a user identifier, or
  the identifier has no row in the store, the action returns a redirect to \<open>/login\<close>
  (not a structured failure); the body is never read, so nothing is validated, and
  neither \<open>argon2.verify\<close> nor the store update is called; the store is unchanged.
\<close>

theorem action_unauthenticated:
  assumes "authCookie_parse env (cookie request) = Inr parsed"
    and "userId = get_prop (or_empty parsed) (js ''userId'')"
    and "\<not> truthy userId \<or> user_findUnique db userId = None"
  shows "\<exists>calls.
           action env request db = (Inr (Redirect ''/login'' []), db, calls)
           \<and> calls = (if truthy userId
                       then [CookieParse (cookie request), FindUnique userId]
                       else [CookieParse (cookie request)])
           \<and> RequestJson \<notin> set calls
           \<and> \<not> list_ex is_verify calls
           \<and> \<not> list_ex is_update calls"
  using assms(1,3) unfolding action_def assms(2) by (auto simp: Let_def)

theorem action_unauthenticated_witness:
  "action demo_env (demo_request None [(js ''currentPassword'', Str (js ''correct horse''))]) demo_db
     = (Inr (Redirect ''/login'' []), demo_db, [CookieParse None])
   \<and> action demo_env (demo_request (Some ''auth=ghost'') []) demo_db
     = (Inr (Redirect ''/login'' []), demo_db,
        [CookieParse (Some ''auth=ghost''), FindUnique (Str (js ''ghost''))])"
proof -
  let ?anon = "demo_request None [(js ''currentPassword'', Str (js ''correct horse''))]"
  let ?ghost = "demo_request (Some ''auth=ghost'') []"
  have p1: "authCookie_parse demo_env (cookie ?anon) = Inr (Value Null)"
    by (simp add: demo_env_def demo_request_def)
  have u1: "Undefined = get_prop (or_empty (Value Null)) (js ''userId'')"
    by (simp add: or_empty_def)
  have n1: "\<not> truthy Undefined \<or> user_findUnique demo_db Undefined = None"
    by simp
  have p2: "authCookie_parse demo_env (cookie ?ghost)
      = Inr (Object [(js ''userId'', Str (js ''ghost''))])"
    by (simp add: demo_env_def demo_request_def)
  have n2: "\<not> truthy (Str (js ''ghost'')) \<or> user_findUnique demo_db (Str (js ''ghost'')) = None"
    by (simp add: user_findUnique_def demo_db_def bob_def alice_def js_def)
  from action_unauthenticated [OF p1 u1 n1] action_unauthenticated [OF p2 demo_userId n2]
  show ?thesis
    by (simp add: demo_request_def js_def)
qed

text \<open>
  C9. The action does not ask the new password to differ from the current one: with a
  session that resolves to a user of the store and a password of length at least 8
  that verifies against the stored hash, a body whose \<open>newPassword\<close> equals its
  \<open>currentPassword\<close> is accepted: the store is updated with the hash of that password
  and the redirect to \<open>/\<close> with the new token is returned (the collaborators are taken
  to return).
\<close>

theorem action_same_password_accepted:
  assumes "authCookie_parse env (cookie request) = Inr parsed"
    and "userId = get_prop (or_empty parsed) (js ''userId'')"
    and "truthy userId"
    and "user_findUnique db userId = Some user"
    and "json request = Inr formData"
    and "get_prop formData (js ''currentPassword'') = Str pw"
    and "get_prop formData (js ''newPassword'') = Str pw"
    and "8 \<le> length pw"
    and "argon2_verify env (password user) (Str pw) = Inr True"
    and "argon2_hash env (Str pw) = Inr hashedPassword"
    and "authCookie_serialize env (Object [(js ''userId'', userId)]) = Inr token"
  shows "\<exists>db'.
           action env request db =
             (Inr (Redirect ''/'' [(''Set-Cookie'', token)]), db',
              [CookieParse (cookie request), FindUnique userId, RequestJson,
               Argon2Verify (password user) (Str pw), Argon2Hash (Str pw),
               Update userId hashedPassword,
               CookieSerialize (Object [(js ''userId'', userId)])])
           \<and> user_update db userId hashedPassword = Inr db'
           \<and> user_findUnique db' userId = Some (user\<lparr>password := hashedPassword\<rparr>)"
proof -
  have t: "truthy (get_prop formData (js ''currentPassword''))"
    "truthy (get_prop formData (js ''newPassword''))"
    and l: "length_less (get_prop formData (js ''newPassword'')) 8 = Inr False"
    using assms(6-8) by auto
  from action_success [OF assms(1-5) t l assms(9) [folded assms(6)]
      assms(10) [folded assms(7)] assms(11)]
  show ?thesis by (auto simp: assms(6,7))
qed

theorem action_same_password_accepted_witness:
  "action demo_env
     (demo_request (Some ''auth=alice'')
        [(js ''currentPassword'', Str (js ''correct horse'')),
         (js ''newPassword'', Str (js ''correct horse''))])
     demo_db
   = (Inr (Redirect ''/'' [(''Set-Cookie'', ''auth=fresh'')]),
      [bob, alice\<lparr>password := js ''h:'' @ js ''correct horse''\<rparr>],
      [CookieParse (Some ''auth=alice''), FindUnique (Str (js ''alice'')), RequestJson,
       Argon2Verify (password alice) (Str (js ''correct horse'')),
       Argon2Hash (Str (js ''correct horse'')),
       Update (Str (js ''alice'')) (js ''h:'' @ js ''correct horse''),
       CookieSerialize (Object [(js ''userId'', Str (js ''alice''))])])"
proof -
  let ?props = "[(js ''currentPassword'', Str (js ''correct horse'')),
         (js ''newPassword'', Str (js ''correct horse''))]"
  have c: "get_prop (Object ?props) (js ''currentPassword'') = Str (js ''correct horse'')"
    by simp
  have n: "get_prop (Object ?props) (js ''newPassword'') = Str (js ''correct horse'')"
    by (simp add: js_def)
  have l: "8 \<le> length (js ''correct horse'')"
    by (simp add: js_def)
  have v: "argon2_verify demo_env (password alice) (Str (js ''correct horse'')) = Inr True"
    by (simp add: demo_verify)
  from action_same_password_accepted [OF demo_session demo_userId demo_truthy demo_find_alice
      demo_json c n l v demo_hash demo_serialize]
  show ?thesis
    by (simp add: demo_update_alice demo_request_def)
qed

text \<open>
  C10. On the success path (the result is the redirect to \<open>/\<close>), in a store whose
  identifiers are unique: exactly one row has the session's user identifier; the
  store afterwards is the store before with the password of that row replaced by the
  new hash; its identifier and its other columns are as before, and so is every other
  row.
\<close>

theorem action_update_frame:
  assumes "action env request db = (Inr (Redirect ''/'' hs), db', calls)"
    and "distinct (map id' db)"
  shows "\<exists>parsed k h.
           authCookie_parse env (cookie request) = Inr parsed
           \<and> k < length db
           \<and> (\<forall>j<length db. (id' (db ! j) = get_prop (or_empty parsed) (js ''userId'')) = (j = k))
           \<and> Update (get_prop (or_empty parsed) (js ''userId'')) h \<in> set calls
           \<and> db' = db[k := (db ! k)\<lparr>password := h\<rparr>]
           \<and> length db' = length db
           \<and> (\<forall>j<length db. j \<noteq> k \<longrightarrow> db' ! j = db ! j)
           \<and> id' (db' ! k) = id' (db ! k)
           \<and> user.more (db' ! k) = user.more (db ! k)
           \<and> password (db' ! k) = h"
proof -
  from action_success_inv [OF assms(1)] obtain parsed user h where
    p: "authCookie_parse env (cookie request) = Inr parsed"
    and f: "user_findUnique db (get_prop (or_empty parsed) (js ''userId'')) = Some user"
    and u: "user_update db (get_prop (or_empty parsed) (js ''userId'')) h = Inr db'"
    and c: "Update (get_prop (or_empty parsed) (js ''userId'')) h \<in> set calls"
    by blast
  let ?uid = "get_prop (or_empty parsed) (js ''userId'')"
  from f obtain k where k: "k < length db" "db ! k = user"
    and upd: "user_update db ?uid h = Inr (db[k := user\<lparr>password := h\<rparr>])"
    by (rule user_update_found)
  have idk: "id' (db ! k) = ?uid" using f k(2) by (simp add: findUnique_id)
  have db': "db' = db[k := (db ! k)\<lparr>password := h\<rparr>]"
    using u upd k(2) by simp
  have only: "\<forall>j<length db. (id' (db ! j) = ?uid) = (j = k)"
  proof (intro allI impI)
    fix j assume j: "j < length db"
    have "(map id' db ! j = map id' db ! k) = (j = k)"
      by (rule nth_eq_iff_index_eq) (use assms(2) j k(1) in simp_all)
    then show "(id' (db ! j) = ?uid) = (j = k)"
      using j k(1) idk by simp
  qed
  have rest: "\<forall>j<length db. j \<noteq> k \<longrightarrow> db' ! j = db ! j"
    by (simp add: db')
  have "length db' = length db" by (simp add: db')
  moreover have "id' (db' ! k) = id' (db ! k)" "user.more (db' ! k) = user.more (db ! k)"
    "password (db' ! k) = h"
    using k(1) by (simp_all add: db')
  ultimately show ?thesis
    using p k(1) only c db' rest by blast
qed

theorem action_update_frame_witness:
  "\<exists>parsed k h.
     authCookie_parse demo_env (cookie (demo_request (Some ''auth=alice'')
        [(js ''currentPassword'', Str (js ''correct horse'')),
         (js ''newPassword'', Str (js ''battery staple''))])) = Inr parsed
     \<and> k < length demo_db
     \<and> (\<forall>j<length demo_db.
          (id' (demo_db ! j) = get_prop (or_empty parsed) (js ''userId'')) = (j = k))
     \<and> Update (get_prop (or_empty parsed) (js ''userId'')) h
         \<in> set [CookieParse (Some ''auth=alice''), FindUnique (Str (js ''alice'')), RequestJson,
               Argon2Verify (js ''h:correct horse'') (Str (js ''correct horse'')),
               Argon2Hash (Str (js ''battery staple'')),
               Update (Str (js ''alice'')) (js ''h:battery staple''),
               CookieSerialize (Object [(js ''userId'', Str (js ''alice''))])]
     \<and> [bob, alice\<lparr>password := js ''h:battery staple''\<rparr>]
         = demo_db[k := (demo_db ! k)\<lparr>password := h\<rparr>]
     \<and> length [bob, alice\<lparr>password := js ''h:battery staple''\<rparr>] = length demo_db
     \<and> (\<forall>j<length demo_db. j \<noteq> k \<longrightarrow>
          [bob, alice\<lparr>password := js ''h:battery staple''\<rparr>] ! j = demo_db ! j)
     \<and> id' ([bob, alice\<lparr>password := js ''h:battery staple''\<rparr>] ! k) = id' (demo_db ! k)
     \<and> user.more ([bob, alice\<lparr>password := js ''h:battery staple''\<rparr>] ! k)
         = user.more (demo_db ! k)
     \<and> password ([bob, alice\<lparr>password := js ''h:battery staple''\<rparr>] ! k) = h"
proof -
  have "distinct (map id' demo_db)"
    by (simp add: demo_db_def bob_def alice_def js_def)
  with demo_run_accepted show ?thesis
    by (rule action_update_frame)
qed

section \<open>The password change route: the loader\<close>

text \<open>
  C7. The loader redirects to \<open>/login\<close> whenever the check throws, whatever it throws;
  so, for a check that throws on every request lacking a valid session, every such
  request is redirected and the page is not rendered. When the check returns, the
  loader returns \<open>null\<close>. In both cases the loader only calls the check and leaves the
  store as it was.
\<close>

theorem loader_guard:
  assumes "\<forall>r d. \<not> valid_session r d \<longrightarrow> (\<exists>error. checkAuth r d = Inl error)"
  shows "(\<not> valid_session request db \<or> (\<exists>error. checkAuth request db = Inl error)
            \<longrightarrow> loader checkAuth request db = (Some (Redirect ''/login'' []), db, [CheckAuth]))
       \<and> ((\<exists>ok. checkAuth request db = Inr ok)
            \<longrightarrow> loader checkAuth request db = (None, db, [CheckAuth]))"
proof (intro conjI impI)
  assume "\<not> valid_session request db \<or> (\<exists>error. checkAuth request db = Inl error)"
  with assms obtain error where "checkAuth request db = Inl error" by blast
  then show "loader checkAuth request db = (Some (Redirect ''/login'' []), db, [CheckAuth])"
    by (simp add: loader_def)
next
  assume "\<exists>ok. checkAuth request db = Inr ok"
  then show "loader checkAuth request db = (None, db, [CheckAuth])"
    by (auto simp: loader_def)
qed

theorem loader_guard_witness:
  "loader demo_checkAuth (demo_request None []) demo_db
     = (Some (Redirect ''/login'' []), demo_db, [CheckAuth])
   \<and> loader demo_checkAuth (demo_request (Some ''auth=alice'') []) demo_db
     = (None, demo_db, [CheckAuth])"
proof -
  let ?valid = "\<lambda>r (d :: unit table). cookie r = Some ''auth=alice''"
  have c: "\<forall>r d. \<not> ?valid r d \<longrightarrow> (\<exists>error. demo_checkAuth r d = Inl error)"
    by (simp add: demo_checkAuth_def)
  have i: "\<not> ?valid (demo_request None []) demo_db"
    by (simp add: demo_request_def)
  have v: "\<exists>ok. demo_checkAuth (demo_request (Some ''auth=alice'') []) demo_db = Inr ok"
    by (simp add: demo_checkAuth_def demo_request_def)
  from loader_guard [of ?valid demo_checkAuth "demo_request None []" demo_db, OF c]
    loader_guard [of ?valid demo_checkAuth "demo_request (Some ''auth=alice'') []" demo_db, OF c]
    i v
  show ?thesis by blast
qed

section \<open>The comment edit input's keyboard contract\<close>

text \<open>
  C8. For every keyboard event and every value of the controlled text: Enter with the
  Control or the Command (meta) key held calls \<open>preventDefault\<close> (so no newline is
  inserted) and \<open>onConfirm\<close>, and nothing else; Escape calls \<open>onCancel\<close>, and nothing
  else, whatever the modifiers and the text.
\<close>

theorem handleKeyDown_contract:
  "((metaKey e \<or> ctrlKey e) \<and> key e = js ''Enter''
      \<longrightarrow> handleKeyDown val e = [PreventDefault, OnConfirm])
   \<and> (key e = js ''Escape'' \<longrightarrow> handleKeyDown val e = [OnCancel])"
  by (auto simp: handleKeyDown_def js_def)

theorem handleKeyDown_contract_witness:
  "handleKeyDown (js ''draft'') \<lparr>key = js ''Enter'', metaKey = False, ctrlKey = True\<rparr>
     = [PreventDefault, OnConfirm]
   \<and> handleKeyDown (js ''draft'') \<lparr>key = js ''Escape'', metaKey = True, ctrlKey = False\<rparr>
     = [OnCancel]"
  using handleKeyDown_contract [of "\<lparr>key = js ''Enter'', metaKey = False, ctrlKey = True\<rparr>" "js ''draft''"]
    handleKeyDown_contract [of "\<lparr>key = js ''Escape'', metaKey = True, ctrlKey = False\<rparr>" "js ''draft''"]
  by simp

end
